theory Spec2Isabelle
  imports Complex_Main "HOL-Library.Sublist"
begin

section \<open>Decoded JSON values\<close>

text \<open>
  The Go code works on the result of \<open>json.Unmarshal\<close> into an \<open>interface{}\<close>:
  \<open>nil\<close>, \<open>bool\<close>, \<open>float64\<close>, \<open>string\<close>, \<open>[]interface{}\<close> or
  \<open>map[string]interface{}\<close>. A JSON number is a finite \<open>float64\<close>, that is a real
  number. A map is an association list read with \<open>map_of\<close> (a Go map holds one binding
  per key; the code never iterates over a map, it only looks keys up).
\<close>

datatype json =
    JNull
  | JBool bool
  | JNum real
  | JStr string
  | JArr "json list"
  | JObj "(string \<times> json) list"

type_synonym jmap = "(string \<times> json) list"

text \<open>The comma-ok type assertions \<open>m[k].(T)\<close>, applied to the result of a map lookup.\<close>

fun as_string :: "json option \<Rightarrow> string option" where
  "as_string (Some (JStr s)) = Some s"
| "as_string _ = None"

fun as_float :: "json option \<Rightarrow> real option" where
  "as_float (Some (JNum x)) = Some x"
| "as_float _ = None"

fun as_bool :: "json option \<Rightarrow> bool option" where
  "as_bool (Some (JBool b)) = Some b"
| "as_bool _ = None"

fun as_array :: "json option \<Rightarrow> json list option" where
  "as_array (Some (JArr xs)) = Some xs"
| "as_array _ = None"

fun as_map :: "json option \<Rightarrow> jmap option" where
  "as_map (Some (JObj m)) = Some m"
| "as_map _ = None"

section \<open>The HTTP client: error detail extraction\<close>

text \<open>
  \<open>detailOrMessage\<close> is the pair of lookups the source performs on a nested object:
  \<open>detail\<close> as a string first, then \<open>message\<close> as a string.
\<close>

definition detailOrMessage :: "jmap \<Rightarrow> string option" where
  "detailOrMessage em =
     (case as_string (map_of em ''detail'') of
        Some detail \<Rightarrow> Some detail
      | None \<Rightarrow> as_string (map_of em ''message''))"

text \<open>
  The type switch on the value found under one key. \<open>Some s\<close> is \<open>return s\<close>;
  \<open>None\<close> means that the switch falls through and the loop goes on with the next key.
\<close>

fun switchValue :: "json \<Rightarrow> string option" where
  "switchValue (JStr val) = Some val"
| "switchValue (JArr []) = None"
| "switchValue (JArr (JStr s # rest)) = Some s"
| "switchValue (JArr (JObj em # rest)) = detailOrMessage em"
| "switchValue (JArr (other # rest)) = None"
| "switchValue (JObj val) = detailOrMessage val"
| "switchValue other = None"

text \<open>The loop over the slice of field names.\<close>

fun tryKeys :: "jmap \<Rightarrow> string list \<Rightarrow> string" where
  "tryKeys m [] = ''''"
| "tryKeys m (key # keys) =
     (case map_of m key of
        None \<Rightarrow> tryKeys m keys
      | Some v \<Rightarrow> (case switchValue v of Some s \<Rightarrow> s | None \<Rightarrow> tryKeys m keys))"

definition errorKeys :: "string list" where
  "errorKeys = [''error'', ''message'', ''detail'', ''errors'']"

definition extractErrorDetail :: "json \<Rightarrow> string" where
  "extractErrorDetail result =
     (case result of JObj m \<Rightarrow> tryKeys m errorKeys | other \<Rightarrow> '''')"

section \<open>Go runtime and standard library\<close>

text \<open>
  Functions of the Go standard library that the handlers call and whose code is not part
  of this repository are taken as parameters, collected in one record:
  \<^item> \<open>overflow_int x\<close>: the result of the conversion \<open>int(x)\<close> when the truncation of
    \<open>x\<close> is not an \<open>int64\<close> (the language leaves that value to the implementation);
  \<^item> \<open>ToLower\<close>: \<open>strings.ToLower\<close>;
  \<^item> \<open>FormatRFC3339 t\<close>, \<open>FormatRFC3339Nano t\<close>: \<open>Format(time.RFC3339)\<close> and
    \<open>Format(time.RFC3339Nano)\<close> of the UTC instant \<open>t\<close> nanoseconds after the epoch;
  \<^item> \<open>Unmarshal\<close>: \<open>json.Unmarshal\<close> into an \<open>interface{}\<close>, \<open>None\<close> for an error.
\<close>

record golib =
  overflow_int :: "real \<Rightarrow> int"
  ToLower :: "string \<Rightarrow> string"
  FormatRFC3339 :: "int \<Rightarrow> string"
  FormatRFC3339Nano :: "int \<Rightarrow> string"
  Unmarshal :: "string \<Rightarrow> json option"

definition in_int64 :: "int \<Rightarrow> bool" where
  "in_int64 v = (- (2 ^ 63) \<le> v \<and> v < 2 ^ 63)"

definition wrap64 :: "int \<Rightarrow> int" where
  \<comment> \<open>the value of an \<open>int64\<close> operation whose exact result is \<open>v\<close>\<close>
  "wrap64 v = (v + 2 ^ 63) mod 2 ^ 64 - 2 ^ 63"

definition trunc_zero :: "real \<Rightarrow> int" where
  "trunc_zero x = (if 0 \<le> x then \<lfloor>x\<rfloor> else \<lceil>x\<rceil>)"

definition float_to_int :: "golib \<Rightarrow> real \<Rightarrow> int" where
  \<comment> \<open>the conversion \<open>int(x)\<close> of a \<open>float64\<close>, \<open>int\<close> being 64 bits wide\<close>
  "float_to_int L x =
     (if in_int64 (trunc_zero x) then trunc_zero x else overflow_int L x)"

text \<open>\<open>strconv.Itoa\<close>: the decimal representation of an integer.\<close>

definition digit_char :: "nat \<Rightarrow> char" where
  "digit_char d = ''0123456789'' ! d"

fun nat_decimal :: "nat \<Rightarrow> string" where
  "nat_decimal n =
     (if n < 10 then [digit_char n] else nat_decimal (n div 10) @ [digit_char (n mod 10)])"

declare nat_decimal.simps [simp del]

definition Itoa :: "int \<Rightarrow> string" where
  "Itoa i = (if i < 0 then CHR ''-'' # nat_decimal (nat (- i)) else nat_decimal (nat i))"

text \<open>
  \<open>strconv.ParseInt(s, 10, 64)\<close>: an optional sign, then one or more decimal digits;
  \<open>None\<close> is a syntax or range error.
\<close>

definition digit_value :: "char \<Rightarrow> nat option" where
  "digit_value c =
     (let n = (of_char c :: nat) in if 48 \<le> n \<and> n \<le> 57 then Some (n - 48) else None)"

fun parse_digits :: "string \<Rightarrow> nat \<Rightarrow> nat option" where
  "parse_digits [] acc = Some acc"
| "parse_digits (c # cs) acc =
     (case digit_value c of None \<Rightarrow> None | Some d \<Rightarrow> parse_digits cs (10 * acc + d))"

definition ParseInt :: "string \<Rightarrow> int option" where
  "ParseInt s =
     (let neg = (s \<noteq> [] \<and> hd s = CHR ''-'');
          ds = (if s \<noteq> [] \<and> (hd s = CHR ''+'' \<or> hd s = CHR ''-'') then tl s else s)
      in if ds = [] then None
         else (case parse_digits ds 0 of
                 None \<Rightarrow> None
               | Some n \<Rightarrow>
                   (let v = (if neg then - int n else int n)
                    in if in_int64 v then Some v else None)))"

text \<open>\<open>strings.Contains s substr\<close>: \<open>substr\<close> occurs in \<open>s\<close> as a contiguous block.\<close>

definition Contains :: "string \<Rightarrow> string \<Rightarrow> bool" where
  "Contains s substr = sublist substr s"

section \<open>Query requests\<close>

text \<open>
  The packages \<open>spans\<close> and \<open>logs\<close> declare the same request types; they are modelled
  once. A nil pointer is \<open>None\<close>.
\<close>

record AttributeFilterValue =
  StringValue :: "string option"
  IntValue :: "string option"
  BoolValue :: "bool option"

record AttributeFilter =
  Key :: string
  Operator :: string
  Value :: "AttributeFilterValue option"

record TimeRange =
  From :: string
  To :: string

record QueryRequest =
  ReqTimeRange :: TimeRange
  ReqFilter :: "AttributeFilter list"
  PaginationLimit :: int

subsection \<open>Filters (the first block of each handler)\<close>

definition spanFilters :: "golib \<Rightarrow> jmap \<Rightarrow> AttributeFilter list" where
  "spanFilters L args =
     (let filters = [];
          filters =
            (case as_string (map_of args ''service_name'') of
               Some serviceName \<Rightarrow>
                 if serviceName \<noteq> '''' then
                   filters @ [\<lparr>Key = ''service.name'', Operator = ''is'',
                     Value = Some \<lparr>StringValue = Some serviceName, IntValue = None,
                                   BoolValue = None\<rparr>\<rparr>]
                 else filters
             | None \<Rightarrow> filters);
          filters =
            (case as_string (map_of args ''http_method'') of
               Some httpMethod \<Rightarrow>
                 if httpMethod \<noteq> '''' then
                   filters @ [\<lparr>Key = ''http.request.method'', Operator = ''is'',
                     Value = Some \<lparr>StringValue = Some httpMethod, IntValue = None,
                                   BoolValue = None\<rparr>\<rparr>]
                 else filters
             | None \<Rightarrow> filters);
          filters =
            (case as_float (map_of args ''http_status_code'') of
               Some statusCode \<Rightarrow>
                 (let statusStr = Itoa (float_to_int L statusCode)
                  in filters @ [\<lparr>Key = ''http.response.status_code'', Operator = ''is'',
                       Value = Some \<lparr>StringValue = None, IntValue = Some statusStr,
                                     BoolValue = None\<rparr>\<rparr>])
             | None \<Rightarrow> filters);
          filters =
            (case as_string (map_of args ''span_name'') of
               Some spanName \<Rightarrow>
                 if spanName \<noteq> '''' then
                   filters @ [\<lparr>Key = ''name'', Operator = ''is'',
                     Value = Some \<lparr>StringValue = Some spanName, IntValue = None,
                                   BoolValue = None\<rparr>\<rparr>]
                 else filters
             | None \<Rightarrow> filters);
          filters =
            (case as_bool (map_of args ''error_only'') of
               Some errorOnly \<Rightarrow>
                 if errorOnly then
                   (let errorCode = ''2''
                    in filters @ [\<lparr>Key = ''status.code'', Operator = ''is'',
                         Value = Some \<lparr>StringValue = None, IntValue = Some errorCode,
                                       BoolValue = None\<rparr>\<rparr>])
                 else filters
             | None \<Rightarrow> filters)
      in filters)"

definition logFilters :: "jmap \<Rightarrow> AttributeFilter list" where
  "logFilters args =
     (let filters = [];
          filters =
            (case as_string (map_of args ''service_name'') of
               Some serviceName \<Rightarrow>
                 if serviceName \<noteq> '''' then
                   filters @ [\<lparr>Key = ''service.name'', Operator = ''is'',
                     Value = Some \<lparr>StringValue = Some serviceName, IntValue = None,
                                   BoolValue = None\<rparr>\<rparr>]
                 else filters
             | None \<Rightarrow> filters)
      in filters)"

subsection \<open>Time range and limit\<close>

text \<open>
  An instant is its number of nanoseconds since the epoch; a \<open>time.Duration\<close> is an
  \<open>int64\<close> count of nanoseconds, so its arithmetic wraps.
\<close>

definition Minute :: int where
  "Minute = 60000000000"

definition timeRangeMinutes :: "golib \<Rightarrow> jmap \<Rightarrow> int" where
  "timeRangeMinutes L args =
     (let minutes = 60
      in case as_float (map_of args ''time_range_minutes'') of
           Some m \<Rightarrow>
             if m > 0 then
               (let minutes = float_to_int L m
                in if minutes > 1440 then 1440 else minutes)
             else minutes
         | None \<Rightarrow> minutes)"

definition timeFrom :: "int \<Rightarrow> int \<Rightarrow> int" where
  \<comment> \<open>\<open>now.Add(-time.Duration(minutes) * time.Minute)\<close>\<close>
  "timeFrom now minutes = now + wrap64 (wrap64 (- minutes) * Minute)"

definition spanLimit :: "golib \<Rightarrow> jmap \<Rightarrow> int" where
  "spanLimit L args =
     (let limit = 100
      in case as_float (map_of args ''limit'') of
           Some l \<Rightarrow>
             if l > 0 then
               (let limit = float_to_int L l
                in if limit > 200 then 200 else limit)
             else limit
         | None \<Rightarrow> limit)"

definition logLimit :: "golib \<Rightarrow> jmap \<Rightarrow> int" where
  "logLimit L args =
     (let limit = 100
      in case as_float (map_of args ''limit'') of
           Some l \<Rightarrow>
             if l > 0 then
               (let limit = float_to_int L l
                in if limit > 500 then 500 else limit)
             else limit
         | None \<Rightarrow> limit)"

section \<open>Flattening the OTLP response\<close>

subsection \<open>Service name of a resource group\<close>

text \<open>
  \<open>extractServiceName\<close> is declared twice, in package \<open>spans\<close> and in package
  \<open>logs\<close>, with the same body; it is modelled once. \<open>serviceNameLoop\<close> is its
  \<open>for\<close> loop over the resource attributes.
\<close>

fun serviceNameLoop :: "json list \<Rightarrow> string" where
  "serviceNameLoop [] = ''''"
| "serviceNameLoop (attr # rest) =
     (case attr of
        JObj attrMap \<Rightarrow>
          (case as_string (map_of attrMap ''key'') of
             Some key \<Rightarrow>
               if key = ''service.name'' then
                 (case as_map (map_of attrMap ''value'') of
                    Some value \<Rightarrow>
                      (case as_string (map_of value ''stringValue'') of
                         Some strVal \<Rightarrow> strVal
                       | None \<Rightarrow> serviceNameLoop rest)
                  | None \<Rightarrow> serviceNameLoop rest)
               else serviceNameLoop rest
           | None \<Rightarrow> serviceNameLoop rest)
      | other \<Rightarrow> serviceNameLoop rest)"

definition extractServiceName :: "jmap \<Rightarrow> string" where
  "extractServiceName rsMap =
     (case as_map (map_of rsMap ''resource'') of
        None \<Rightarrow> ''''
      | Some resource \<Rightarrow>
          (case as_array (map_of resource ''attributes'') of
             None \<Rightarrow> ''''
           | Some attrs \<Rightarrow> serviceNameLoop attrs))"

subsection \<open>Attributes of a leaf record\<close>

datatype attr_value = AttrString string | AttrInt int | AttrBool bool

text \<open>
  The value resolution both attribute extractors end with: \<open>stringValue\<close>, else
  \<open>intValue\<close> (stored only when it parses), else \<open>boolValue\<close>.
\<close>

definition storeAttribute ::
  "string \<Rightarrow> json option \<Rightarrow> (string \<rightharpoonup> attr_value) \<Rightarrow> (string \<rightharpoonup> attr_value)" where
  "storeAttribute key v result =
     (case as_map v of
        None \<Rightarrow> result
      | Some value \<Rightarrow>
          (case as_string (map_of value ''stringValue'') of
             Some strVal \<Rightarrow> result(key \<mapsto> AttrString strVal)
           | None \<Rightarrow>
               (case as_string (map_of value ''intValue'') of
                  Some intVal \<Rightarrow>
                    (case ParseInt intVal of
                       Some i \<Rightarrow> result(key \<mapsto> AttrInt i)
                     | None \<Rightarrow> result)
                | None \<Rightarrow>
                    (case as_bool (map_of value ''boolValue'') of
                       Some boolVal \<Rightarrow> result(key \<mapsto> AttrBool boolVal)
                     | None \<Rightarrow> result))))"

definition interestingKeys :: "string list" where
  "interestingKeys =
     [''http.request.method'', ''http.response.status_code'', ''http.route'', ''http.url'',
      ''http.target'', ''db.system'', ''db.statement'', ''rpc.method'', ''rpc.service'',
      ''messaging.system'', ''messaging.operation'', ''error.type'', ''exception.type'',
      ''exception.message'']"

fun spanAttributesLoop ::
  "json list \<Rightarrow> (string \<rightharpoonup> attr_value) \<Rightarrow> (string \<rightharpoonup> attr_value)" where
  "spanAttributesLoop [] result = result"
| "spanAttributesLoop (attr # rest) result =
     (case attr of
        JObj attrMap \<Rightarrow>
          (case as_string (map_of attrMap ''key'') of
             None \<Rightarrow> spanAttributesLoop rest result
           | Some key \<Rightarrow>
               if key \<notin> set interestingKeys then spanAttributesLoop rest result
               else spanAttributesLoop rest
                      (storeAttribute key (map_of attrMap ''value'') result))
      | other \<Rightarrow> spanAttributesLoop rest result)"

definition extractSpanAttributes :: "jmap \<Rightarrow> (string \<rightharpoonup> attr_value)" where
  "extractSpanAttributes spanMap =
     (let result = Map.empty
      in case as_array (map_of spanMap ''attributes'') of
           None \<Rightarrow> result
         | Some attrs \<Rightarrow> spanAttributesLoop attrs result)"

fun logAttributesLoop ::
  "json list \<Rightarrow> (string \<rightharpoonup> attr_value) \<Rightarrow> (string \<rightharpoonup> attr_value)" where
  "logAttributesLoop [] result = result"
| "logAttributesLoop (attr # rest) result =
     (case attr of
        JObj attrMap \<Rightarrow>
          (case as_string (map_of attrMap ''key'') of
             None \<Rightarrow> logAttributesLoop rest result
           | Some key \<Rightarrow>
               logAttributesLoop rest (storeAttribute key (map_of attrMap ''value'') result))
      | other \<Rightarrow> logAttributesLoop rest result)"

definition extractLogAttributes :: "jmap \<Rightarrow> (string \<rightharpoonup> attr_value)" where
  "extractLogAttributes logMap =
     (let result = Map.empty
      in case as_array (map_of logMap ''attributes'') of
           None \<Rightarrow> result
         | Some attrs \<Rightarrow> logAttributesLoop attrs result)"

subsection \<open>Spans\<close>

text \<open>
  \<open>DurationMs\<close> is a \<open>float64\<close> in the source; the model keeps the exact quotient and
  leaves the rounding of the conversion and of the division out.
\<close>

record FlatSpan =
  TraceID :: string
  SpanID :: string
  ParentSpanID :: string
  Name :: string
  ServiceName :: string
  DurationMs :: real
  StartTime :: string
  EndTime :: string
  StatusCode :: int
  StatusMessage :: string
  Attributes :: "string \<rightharpoonup> attr_value"

text \<open>The body of the innermost loop: one span object becomes one record.\<close>

definition flatSpan :: "golib \<Rightarrow> string \<Rightarrow> jmap \<Rightarrow> FlatSpan" where
  "flatSpan L serviceName spanMap =
     (let flat = \<lparr>TraceID = '''', SpanID = '''', ParentSpanID = '''', Name = '''',
                  ServiceName = serviceName, DurationMs = 0, StartTime = '''',
                  EndTime = '''', StatusCode = 0, StatusMessage = '''',
                  Attributes = Map.empty\<rparr>;
          flat = (case as_string (map_of spanMap ''name'') of
                    Some name \<Rightarrow> flat\<lparr>Name := name\<rparr> | None \<Rightarrow> flat);
          flat = (case as_string (map_of spanMap ''traceId'') of
                    Some traceID \<Rightarrow> flat\<lparr>TraceID := traceID\<rparr> | None \<Rightarrow> flat);
          flat = (case as_string (map_of spanMap ''spanId'') of
                    Some spanID \<Rightarrow> flat\<lparr>SpanID := spanID\<rparr> | None \<Rightarrow> flat);
          flat = (case as_string (map_of spanMap ''parentSpanId'') of
                    Some parentSpanID \<Rightarrow> flat\<lparr>ParentSpanID := parentSpanID\<rparr>
                  | None \<Rightarrow> flat);
          flat =
            (case as_string (map_of spanMap ''startTimeUnixNano'') of
               Some startNanoStr \<Rightarrow>
                 (case as_string (map_of spanMap ''endTimeUnixNano'') of
                    Some endNanoStr \<Rightarrow>
                      (case (ParseInt startNanoStr, ParseInt endNanoStr) of
                         (Some startNano, Some endNano) \<Rightarrow>
                           flat\<lparr>DurationMs :=
                                  real_of_int (wrap64 (endNano - startNano)) / 1000000,
                                StartTime := FormatRFC3339Nano L startNano,
                                EndTime := FormatRFC3339Nano L endNano\<rparr>
                       | other \<Rightarrow> flat)
                  | None \<Rightarrow> flat)
             | None \<Rightarrow> flat);
          flat =
            (case as_map (map_of spanMap ''status'') of
               Some status \<Rightarrow>
                 (let flat = (case as_float (map_of status ''code'') of
                                Some code \<Rightarrow> flat\<lparr>StatusCode := float_to_int L code\<rparr>
                              | None \<Rightarrow> flat);
                      flat = (case as_string (map_of status ''message'') of
                                Some msg \<Rightarrow> flat\<lparr>StatusMessage := msg\<rparr>
                              | None \<Rightarrow> flat)
                  in flat)
             | None \<Rightarrow> flat);
          flat = flat\<lparr>Attributes := extractSpanAttributes spanMap\<rparr>
      in flat)"

text \<open>The three nested loops; \<open>spans\<close> is the slice being appended to.\<close>

fun spanListLoop :: "golib \<Rightarrow> string \<Rightarrow> json list \<Rightarrow> FlatSpan list \<Rightarrow> FlatSpan list" where
  "spanListLoop L serviceName [] spans = spans"
| "spanListLoop L serviceName (s # rest) spans =
     (case s of
        JObj spanMap \<Rightarrow>
          spanListLoop L serviceName rest (spans @ [flatSpan L serviceName spanMap])
      | other \<Rightarrow> spanListLoop L serviceName rest spans)"

fun scopeSpansLoop :: "golib \<Rightarrow> string \<Rightarrow> json list \<Rightarrow> FlatSpan list \<Rightarrow> FlatSpan list" where
  "scopeSpansLoop L serviceName [] spans = spans"
| "scopeSpansLoop L serviceName (ss # rest) spans =
     (case ss of
        JObj ssMap \<Rightarrow>
          (case as_array (map_of ssMap ''spans'') of
             Some spanList \<Rightarrow>
               scopeSpansLoop L serviceName rest (spanListLoop L serviceName spanList spans)
           | None \<Rightarrow> scopeSpansLoop L serviceName rest spans)
      | other \<Rightarrow> scopeSpansLoop L serviceName rest spans)"

fun resourceSpansLoop :: "golib \<Rightarrow> json list \<Rightarrow> FlatSpan list \<Rightarrow> FlatSpan list" where
  "resourceSpansLoop L [] spans = spans"
| "resourceSpansLoop L (rs # rest) spans =
     (case rs of
        JObj rsMap \<Rightarrow>
          (let serviceName = extractServiceName rsMap
           in case as_array (map_of rsMap ''scopeSpans'') of
                Some scopeSpans \<Rightarrow>
                  resourceSpansLoop L rest (scopeSpansLoop L serviceName scopeSpans spans)
              | None \<Rightarrow> resourceSpansLoop L rest spans)
      | other \<Rightarrow> resourceSpansLoop L rest spans)"

definition flattenSpansResponse :: "golib \<Rightarrow> json \<Rightarrow> FlatSpan list" where
  "flattenSpansResponse L data =
     (let spans = []
      in case data of
           JObj dataMap \<Rightarrow>
             (case as_array (map_of dataMap ''resourceSpans'') of
                Some resourceSpans \<Rightarrow> resourceSpansLoop L resourceSpans spans
              | None \<Rightarrow> spans)
         | other \<Rightarrow> spans)"

subsection \<open>Logs\<close>

text \<open>
  The fields \<open>ServiceName\<close>, \<open>TraceID\<close>, \<open>SpanID\<close> and \<open>Attributes\<close> of \<open>FlatLog\<close>
  carry the prefix \<open>Log\<close> here, the names being taken by \<open>FlatSpan\<close>.
\<close>

record FlatLog =
  Timestamp :: string
  LogServiceName :: string
  SeverityText :: string
  SeverityNumber :: int
  Body :: string
  LogTraceID :: string
  LogSpanID :: string
  LogAttributes :: "string \<rightharpoonup> attr_value"

definition flatLog :: "golib \<Rightarrow> string \<Rightarrow> jmap \<Rightarrow> FlatLog" where
  "flatLog L serviceName logMap =
     (let flat = \<lparr>Timestamp = '''', LogServiceName = serviceName, SeverityText = '''',
                  SeverityNumber = 0, Body = '''', LogTraceID = '''', LogSpanID = '''',
                  LogAttributes = Map.empty\<rparr>;
          flat =
            (case as_string (map_of logMap ''timeUnixNano'') of
               Some timeNanoStr \<Rightarrow>
                 (case ParseInt timeNanoStr of
                    Some timeNano \<Rightarrow> flat\<lparr>Timestamp := FormatRFC3339Nano L timeNano\<rparr>
                  | None \<Rightarrow> flat)
             | None \<Rightarrow>
                 (case as_string (map_of logMap ''observedTimeUnixNano'') of
                    Some observedTimeStr \<Rightarrow>
                      (case ParseInt observedTimeStr of
                         Some timeNano \<Rightarrow> flat\<lparr>Timestamp := FormatRFC3339Nano L timeNano\<rparr>
                       | None \<Rightarrow> flat)
                  | None \<Rightarrow> flat));
          flat = (case as_string (map_of logMap ''severityText'') of
                    Some sevText \<Rightarrow> flat\<lparr>SeverityText := sevText\<rparr> | None \<Rightarrow> flat);
          flat = (case as_float (map_of logMap ''severityNumber'') of
                    Some sevNum \<Rightarrow> flat\<lparr>SeverityNumber := float_to_int L sevNum\<rparr>
                  | None \<Rightarrow> flat);
          flat = (case as_map (map_of logMap ''body'') of
                    Some body \<Rightarrow>
                      (case as_string (map_of body ''stringValue'') of
                         Some strVal \<Rightarrow> flat\<lparr>Body := strVal\<rparr> | None \<Rightarrow> flat)
                  | None \<Rightarrow> flat);
          flat = (case as_string (map_of logMap ''traceId'') of
                    Some traceID \<Rightarrow> flat\<lparr>LogTraceID := traceID\<rparr> | None \<Rightarrow> flat);
          flat = (case as_string (map_of logMap ''spanId'') of
                    Some spanID \<Rightarrow> flat\<lparr>LogSpanID := spanID\<rparr> | None \<Rightarrow> flat);
          flat = flat\<lparr>LogAttributes := extractLogAttributes logMap\<rparr>
      in flat)"

fun logRecordsLoop :: "golib \<Rightarrow> string \<Rightarrow> json list \<Rightarrow> FlatLog list \<Rightarrow> FlatLog list" where
  "logRecordsLoop L serviceName [] logs = logs"
| "logRecordsLoop L serviceName (lr # rest) logs =
     (case lr of
        JObj logMap \<Rightarrow>
          logRecordsLoop L serviceName rest (logs @ [flatLog L serviceName logMap])
      | other \<Rightarrow> logRecordsLoop L serviceName rest logs)"

fun scopeLogsLoop :: "golib \<Rightarrow> string \<Rightarrow> json list \<Rightarrow> FlatLog list \<Rightarrow> FlatLog list" where
  "scopeLogsLoop L serviceName [] logs = logs"
| "scopeLogsLoop L serviceName (sl # rest) logs =
     (case sl of
        JObj slMap \<Rightarrow>
          (case as_array (map_of slMap ''logRecords'') of
             Some logRecords \<Rightarrow>
               scopeLogsLoop L serviceName rest (logRecordsLoop L serviceName logRecords logs)
           | None \<Rightarrow> scopeLogsLoop L serviceName rest logs)
      | other \<Rightarrow> scopeLogsLoop L serviceName rest logs)"

fun resourceLogsLoop :: "golib \<Rightarrow> json list \<Rightarrow> FlatLog list \<Rightarrow> FlatLog list" where
  "resourceLogsLoop L [] logs = logs"
| "resourceLogsLoop L (rl # rest) logs =
     (case rl of
        JObj rlMap \<Rightarrow>
          (let serviceName = extractServiceName rlMap
           in case as_array (map_of rlMap ''scopeLogs'') of
                Some scopeLogs \<Rightarrow>
                  resourceLogsLoop L rest (scopeLogsLoop L serviceName scopeLogs logs)
              | None \<Rightarrow> resourceLogsLoop L rest logs)
      | other \<Rightarrow> resourceLogsLoop L rest logs)"

definition flattenLogsResponse :: "golib \<Rightarrow> json \<Rightarrow> FlatLog list" where
  "flattenLogsResponse L data =
     (let logs = []
      in case data of
           JObj dataMap \<Rightarrow>
             (case as_array (map_of dataMap ''resourceLogs'') of
                Some resourceLogs \<Rightarrow> resourceLogsLoop L resourceLogs logs
              | None \<Rightarrow> logs)
         | other \<Rightarrow> logs)"

section \<open>The HTTP client: requests\<close>

text \<open>
  \<open>APIError.StatusCode\<close> is \<open>HTTPStatusCode\<close> here (\<open>FlatSpan\<close> has a field
  \<open>StatusCode\<close>). The field \<open>Meta\<close> of \<open>ToolResult\<close>, which no code path sets, is
  left out. The result type is polymorphic in \<open>Data\<close>: the client stores decoded JSON,
  a handler stores its envelope.
\<close>

record APIError =
  HTTPStatusCode :: int
  Title :: string
  Detail :: string

record 'd ToolResult =
  Success :: bool
  Data :: 'd
  Error :: "APIError option"

definition ErrorResult :: "int \<Rightarrow> string \<Rightarrow> json ToolResult" where
  "ErrorResult statusCode message =
     \<lparr>Success = False, Data = JNull,
      Error = Some \<lparr>HTTPStatusCode = statusCode, Title = '''', Detail = message\<rparr>\<rparr>"

definition SuccessResult :: "json \<Rightarrow> json ToolResult" where
  "SuccessResult data = \<lparr>Success = True, Data = data, Error = None\<rparr>"

text \<open>
  What the world outside answers to one call of \<open>Request\<close>: one of the four failures
  the function checks for, each with the text of its \<open>err\<close>, or an HTTP response with
  its \<open>StatusCode\<close>, its \<open>Status\<close> line and its body.
\<close>

datatype http_outcome =
    MarshalError string
  | NewRequestError string
  | DoError string
  | ReadError string
  | Response int string string

definition Request :: "golib \<Rightarrow> http_outcome \<Rightarrow> json ToolResult" where
  "Request L outcome =
     (case outcome of
        MarshalError err \<Rightarrow> ErrorResult 400 (''failed to marshal request body: '' @ err)
      | NewRequestError err \<Rightarrow> ErrorResult 500 (''failed to create request: '' @ err)
      | DoError err \<Rightarrow> ErrorResult 500 (''request failed: '' @ err)
      | ReadError err \<Rightarrow> ErrorResult 500 (''failed to read response: '' @ err)
      | Response statusCode status respBody \<Rightarrow>
          (let result =
                 (if length respBody > 0 then
                    (case Unmarshal L respBody of
                       Some v \<Rightarrow> v
                     | None \<Rightarrow> JStr respBody)
                  else JNull)
           in if statusCode \<ge> 400 then
                \<lparr>Success = False, Data = result,
                 Error = Some \<lparr>HTTPStatusCode = statusCode, Title = status,
                               Detail = extractErrorDetail result\<rparr>\<rparr>
              else SuccessResult result))"

section \<open>The query handlers\<close>

record QueryEcho =
  EchoFrom :: string
  EchoTo :: string
  EchoFilters :: "AttributeFilter list"
  EchoLimit :: int

record 'r Envelope =
  Records :: "'r list"
  Count :: int
  Query :: QueryEcho

text \<open>
  The \<open>Data\<close> of a handler's result: what the client returned (when the handler hands
  the client's failure on), or the envelope the handler built.
\<close>

datatype 'r handler_data = ClientData json | QueryData "'r Envelope"

text \<open>
  A handler takes, besides the library and the caller's arguments, the instant \<open>now\<close>
  that its single call of \<open>time.Now\<close> returns and the answer \<open>upstream path req\<close> of
  the world to the request it posts.
\<close>

definition QuerySpansHandler ::
  "golib \<Rightarrow> int \<Rightarrow> (string \<Rightarrow> QueryRequest \<Rightarrow> http_outcome) \<Rightarrow> jmap
     \<Rightarrow> FlatSpan handler_data ToolResult" where
  "QuerySpansHandler L now upstream args =
     (let filters = spanFilters L args;
          minutes = timeRangeMinutes L args;
          from = timeFrom now minutes;
          limit = spanLimit L args;
          req = \<lparr>ReqTimeRange = \<lparr>From = FormatRFC3339 L from, To = FormatRFC3339 L now\<rparr>,
                 ReqFilter = filters, PaginationLimit = limit\<rparr>;
          result = Request L (upstream ''/api/spans'' req)
      in if \<not> Success result then
           \<lparr>Success = Success result, Data = ClientData (Data result), Error = Error result\<rparr>
         else
           (let flatSpans = flattenSpansResponse L (Data result);
                flatSpans =
                  (case as_float (map_of args ''min_duration_ms'') of
                     Some minDuration \<Rightarrow>
                       if minDuration > 0 then
                         filter (\<lambda>span. DurationMs span \<ge> minDuration) flatSpans
                       else flatSpans
                   | None \<Rightarrow> flatSpans)
            in \<lparr>Success = True,
                Data = QueryData
                  \<lparr>Records = flatSpans, Count = int (length flatSpans),
                   Query = \<lparr>EchoFrom = FormatRFC3339 L from, EchoTo = FormatRFC3339 L now,
                            EchoFilters = filters, EchoLimit = limit\<rparr>\<rparr>,
                Error = None\<rparr>))"

definition severityOrder :: "(string \<times> int) list" where
  "severityOrder =
     [(''TRACE'', 1), (''DEBUG'', 5), (''INFO'', 9), (''WARN'', 13), (''ERROR'', 17),
      (''FATAL'', 21)]"

definition severityLevel :: "string \<Rightarrow> int" where
  \<comment> \<open>\<open>severityOrder[minSeverity]\<close>: a missing key reads as the zero value\<close>
  "severityLevel minSeverity =
     (case map_of severityOrder minSeverity of Some level \<Rightarrow> level | None \<Rightarrow> 0)"

text \<open>The two client-side filters of the log handler, in the order of the source.\<close>

definition logPostFilter :: "golib \<Rightarrow> jmap \<Rightarrow> FlatLog list \<Rightarrow> FlatLog list" where
  "logPostFilter L args flatLogs =
     (let flatLogs =
            (case as_string (map_of args ''min_severity'') of
               Some minSeverity \<Rightarrow>
                 if minSeverity \<noteq> '''' then
                   (let minLevel = severityLevel minSeverity
                    in filter (\<lambda>log. SeverityNumber log \<ge> minLevel) flatLogs)
                 else flatLogs
             | None \<Rightarrow> flatLogs);
          flatLogs =
            (case as_string (map_of args ''body_contains'') of
               Some bodyContains \<Rightarrow>
                 if bodyContains \<noteq> '''' then
                   (let bodyContainsLower = ToLower L bodyContains
                    in filter (\<lambda>log. Contains (ToLower L (Body log)) bodyContainsLower)
                         flatLogs)
                 else flatLogs
             | None \<Rightarrow> flatLogs)
      in flatLogs)"

text \<open>
  \<open>flatLogs[:limit]\<close> panics when \<open>limit\<close> is negative, which the conversion of an
  out-of-range \<open>limit\<close> argument may produce; the panic is a value of the model.
\<close>

datatype panic = SliceBoundsOutOfRange

definition applyLimit :: "int \<Rightarrow> 'a list \<Rightarrow> panic + 'a list" where
  "applyLimit limit flatLogs =
     (if int (length flatLogs) > limit then
        (if limit < 0 then Inl SliceBoundsOutOfRange else Inr (take (nat limit) flatLogs))
      else Inr flatLogs)"

definition QueryLogsHandler ::
  "golib \<Rightarrow> int \<Rightarrow> (string \<Rightarrow> QueryRequest \<Rightarrow> http_outcome) \<Rightarrow> jmap
     \<Rightarrow> panic + FlatLog handler_data ToolResult" where
  "QueryLogsHandler L now upstream args =
     (let filters = logFilters args;
          minutes = timeRangeMinutes L args;
          from = timeFrom now minutes;
          limit = logLimit L args;
          req = \<lparr>ReqTimeRange = \<lparr>From = FormatRFC3339 L from, To = FormatRFC3339 L now\<rparr>,
                 ReqFilter = filters, PaginationLimit = wrap64 (limit * 2)\<rparr>;
          result = Request L (upstream ''/api/logs'' req)
      in if \<not> Success result then
           Inr \<lparr>Success = Success result, Data = ClientData (Data result),
                Error = Error result\<rparr>
         else
           (let flatLogs = flattenLogsResponse L (Data result);
                flatLogs = logPostFilter L args flatLogs
            in case applyLimit limit flatLogs of
                 Inl p \<Rightarrow> Inl p
               | Inr flatLogs \<Rightarrow>
                   Inr \<lparr>Success = True,
                        Data = QueryData
                          \<lparr>Records = flatLogs, Count = int (length flatLogs),
                           Query = \<lparr>EchoFrom = FormatRFC3339 L from,
                                    EchoTo = FormatRFC3339 L now,
                                    EchoFilters = filters, EchoLimit = limit\<rparr>\<rparr>,
                        Error = None\<rparr>))"

section \<open>A library instance for evaluation\<close>

text \<open>
  The theorems below hold for every library. Where a statement is evaluated at a concrete
  input, this instance is used: an out-of-range conversion gives the least \<open>int64\<close> (as
  on amd64), \<open>ToLower\<close> lowers the ASCII letters, an instant is printed as its decimal
  number of nanoseconds, and the decoder knows the bodies \<open>null\<close> and \<open>{}\<close> only.
\<close>

definition ascii_lower :: "char \<Rightarrow> char" where
  "ascii_lower c =
     (let n = (of_char c :: nat) in if 65 \<le> n \<and> n \<le> 90 then char_of (n + 32) else c)"

definition exampleLib :: golib where
  "exampleLib =
     \<lparr>overflow_int = (\<lambda>x. - (2 ^ 63)),
      ToLower = map ascii_lower,
      FormatRFC3339 = Itoa,
      FormatRFC3339Nano = Itoa,
      Unmarshal = (\<lambda>s. if s = ''null'' then Some JNull
                        else if s = ''{}'' then Some (JObj []) else None)\<rparr>"

section \<open>Notions used in the statements\<close>

text \<open>
  \<open>namedService attr\<close> is the service name that one resource attribute entry offers:
  the entry is an object whose \<open>key\<close> is the string \<open>service.name\<close> and whose
  \<open>value\<close> is an object with a string \<open>stringValue\<close>.
\<close>

definition namedService :: "json \<Rightarrow> string option" where
  "namedService attr =
     (case attr of
        JObj attrMap \<Rightarrow>
          if as_string (map_of attrMap ''key'') = Some ''service.name'' then
            (case as_map (map_of attrMap ''value'') of
               Some value \<Rightarrow> as_string (map_of value ''stringValue'')
             | None \<Rightarrow> None)
          else None
      | other \<Rightarrow> None)"

text \<open>
  \<open>objects xs\<close> are the elements of an array that are objects, in order;
  \<open>array_at m k\<close> is the array under key \<open>k\<close>, empty when the key is absent or holds
  something else; \<open>string_at m k\<close> is the string under key \<open>k\<close>, empty likewise.
\<close>

fun objects :: "json list \<Rightarrow> jmap list" where
  "objects [] = []"
| "objects (JObj m # xs) = m # objects xs"
| "objects (other # xs) = objects xs"

definition array_at :: "jmap \<Rightarrow> string \<Rightarrow> json list" where
  "array_at m k = (case as_array (map_of m k) of Some xs \<Rightarrow> xs | None \<Rightarrow> [])"

definition string_at :: "jmap \<Rightarrow> string \<Rightarrow> string" where
  "string_at m k = (case as_string (map_of m k) of Some s \<Rightarrow> s | None \<Rightarrow> '''')"

section \<open>Error detail extraction: results\<close>

lemma tryKeys_first_match:
  "tryKeys m ks =
     (case List.map_filter (\<lambda>k. Option.bind (map_of m k) switchValue) ks of
        [] \<Rightarrow> '''' | s # rest \<Rightarrow> s)"
  by (induction ks) (auto split: option.splits)

text \<open>
  Claim C1, as the spec states it, fails: a body with a top-level \<open>detail\<close> string
  and a top-level \<open>error\<close> string yields the \<open>error\<close> string.
\<close>

theorem extractErrorDetail_detail_first_counterexample:
  "extractErrorDetail (JObj [(''detail'', JStr ''d''), (''error'', JStr ''e'')]) = ''e''
   \<and> extractErrorDetail (JObj [(''detail'', JStr ''d''), (''error'', JStr ''e'')]) \<noteq> ''d''"
  by (simp add: extractErrorDetail_def errorKeys_def)

text \<open>
  Claim C1, amended: the detail returned is the first match in the order \<open>error\<close>,
  \<open>message\<close>, \<open>detail\<close>, \<open>errors\<close>, where the value under a key matches when it is
  a string, an array whose first element is a string or an object with a \<open>detail\<close> or
  \<open>message\<close> string, or an object with a \<open>detail\<close> or \<open>message\<close> string; with no
  match the detail is empty. In particular a body with a top-level \<open>error\<close> string yields
  that string, whatever its \<open>detail\<close> field holds.
\<close>

theorem extractErrorDetail_priority:
  "extractErrorDetail (JObj m) =
     (case List.map_filter (\<lambda>k. Option.bind (map_of m k) switchValue)
             [''error'', ''message'', ''detail'', ''errors''] of
        [] \<Rightarrow> '''' | s # rest \<Rightarrow> s)
   \<and> (map_of m ''error'' = Some (JStr e) \<longrightarrow> extractErrorDetail (JObj m) = e)"
  by (simp add: extractErrorDetail_def errorKeys_def tryKeys_first_match)

theorem extractErrorDetail_priority_witness:
  "map_of [(''detail'', JStr ''d''), (''error'', JStr ''e'')] ''error'' = Some (JStr ''e'')
   \<and> extractErrorDetail (JObj [(''detail'', JStr ''d''), (''error'', JStr ''e'')]) = ''e''"
  using extractErrorDetail_priority
          [of "[(''detail'', JStr ''d''), (''error'', JStr ''e'')]" "''e''"]
  by simp

section \<open>Library functions: facts\<close>

lemma wrap64_id: "in_int64 v \<Longrightarrow> wrap64 v = v"
  by (simp add: in_int64_def wrap64_def)

lemma float_to_int_in_range:
  "0 \<le> x \<Longrightarrow> x < 2 ^ 63 \<Longrightarrow> float_to_int L x = \<lfloor>x\<rfloor>"
proof -
  assume a: "0 \<le> x" and b: "x < 2 ^ 63"
  have "\<lfloor>x\<rfloor> < 2 ^ 63" using b by (simp add: floor_less_iff)
  moreover have "0 \<le> \<lfloor>x\<rfloor>" using a by simp
  ultimately show ?thesis using a
    by (simp add: float_to_int_def trunc_zero_def in_int64_def)
qed

section \<open>Filter translation: results\<close>

text \<open>The sequence of conditional appends, written as one concatenation.\<close>

lemma spanFilters_eq:
  "spanFilters L args =
     (case as_string (map_of args ''service_name'') of
        Some s \<Rightarrow>
          if s = '''' then []
          else [\<lparr>Key = ''service.name'', Operator = ''is'',
                 Value = Some \<lparr>StringValue = Some s, IntValue = None, BoolValue = None\<rparr>\<rparr>]
      | None \<Rightarrow> []) @
     (case as_string (map_of args ''http_method'') of
        Some s \<Rightarrow>
          if s = '''' then []
          else [\<lparr>Key = ''http.request.method'', Operator = ''is'',
                 Value = Some \<lparr>StringValue = Some s, IntValue = None, BoolValue = None\<rparr>\<rparr>]
      | None \<Rightarrow> []) @
     (case as_float (map_of args ''http_status_code'') of
        Some x \<Rightarrow>
          [\<lparr>Key = ''http.response.status_code'', Operator = ''is'',
            Value = Some \<lparr>StringValue = None, IntValue = Some (Itoa (float_to_int L x)),
                          BoolValue = None\<rparr>\<rparr>]
      | None \<Rightarrow> []) @
     (case as_string (map_of args ''span_name'') of
        Some s \<Rightarrow>
          if s = '''' then []
          else [\<lparr>Key = ''name'', Operator = ''is'',
                 Value = Some \<lparr>StringValue = Some s, IntValue = None, BoolValue = None\<rparr>\<rparr>]
      | None \<Rightarrow> []) @
     (if as_bool (map_of args ''error_only'') = Some True then
        [\<lparr>Key = ''status.code'', Operator = ''is'',
          Value = Some \<lparr>StringValue = None, IntValue = Some ''2'', BoolValue = None\<rparr>\<rparr>]
      else [])"
  by (auto simp: spanFilters_def Let_def split: option.splits)

lemma logFilters_eq:
  "logFilters args =
     (case as_string (map_of args ''service_name'') of
        Some s \<Rightarrow>
          if s = '''' then []
          else [\<lparr>Key = ''service.name'', Operator = ''is'',
                 Value = Some \<lparr>StringValue = Some s, IntValue = None, BoolValue = None\<rparr>\<rparr>]
      | None \<Rightarrow> [])"
  by (auto simp: logFilters_def Let_def split: option.splits)

text \<open>
  Claim C3, as the spec states it, fails for the HTTP status code: the source tests only
  that \<open>http_status_code\<close> is a number, so the value zero is translated like any other.
\<close>

theorem spanFilters_status_zero_counterexample:
  "map Key (spanFilters exampleLib [(''http_status_code'', JNum 0)])
     = [''http.response.status_code'']
   \<and> map Value (spanFilters exampleLib [(''http_status_code'', JNum 0)])
     = [Some \<lparr>StringValue = None, IntValue = Some ''0'', BoolValue = None\<rparr>]"
  by (simp add: spanFilters_def float_to_int_def trunc_zero_def in_int64_def Itoa_def
        nat_decimal.simps digit_char_def)

text \<open>
  Claim C3, amended: the span filter list is the concatenation, in the canonical order,
  of at most one filter per parameter: \<open>service.name\<close> for a non-empty string
  \<open>service_name\<close>, \<open>http.request.method\<close> for a non-empty string \<open>http_method\<close>,
  \<open>http.response.status_code\<close> for every numeric \<open>http_status_code\<close> (zero included),
  with the decimal text of its integer part, \<open>name\<close> for a non-empty string
  \<open>span_name\<close>, and \<open>status.code\<close> with value \<open>2\<close> for \<open>error_only = true\<close>; a
  parameter that is absent, of another type, an empty string or \<open>false\<close> gives no
  filter. The log filter list holds \<open>service.name\<close> for a non-empty string
  \<open>service_name\<close> and nothing else. Neither list depends on \<open>min_duration_ms\<close>,
  respectively on \<open>min_severity\<close> and \<open>body_contains\<close>.
\<close>

theorem filters_canonical:
  "spanFilters L args =
     (case as_string (map_of args ''service_name'') of
        Some s \<Rightarrow>
          if s = '''' then []
          else [\<lparr>Key = ''service.name'', Operator = ''is'',
                 Value = Some \<lparr>StringValue = Some s, IntValue = None, BoolValue = None\<rparr>\<rparr>]
      | None \<Rightarrow> []) @
     (case as_string (map_of args ''http_method'') of
        Some s \<Rightarrow>
          if s = '''' then []
          else [\<lparr>Key = ''http.request.method'', Operator = ''is'',
                 Value = Some \<lparr>StringValue = Some s, IntValue = None, BoolValue = None\<rparr>\<rparr>]
      | None \<Rightarrow> []) @
     (case as_float (map_of args ''http_status_code'') of
        Some x \<Rightarrow>
          [\<lparr>Key = ''http.response.status_code'', Operator = ''is'',
            Value = Some \<lparr>StringValue = None, IntValue = Some (Itoa (float_to_int L x)),
                          BoolValue = None\<rparr>\<rparr>]
      | None \<Rightarrow> []) @
     (case as_string (map_of args ''span_name'') of
        Some s \<Rightarrow>
          if s = '''' then []
          else [\<lparr>Key = ''name'', Operator = ''is'',
                 Value = Some \<lparr>StringValue = Some s, IntValue = None, BoolValue = None\<rparr>\<rparr>]
      | None \<Rightarrow> []) @
     (if as_bool (map_of args ''error_only'') = Some True then
        [\<lparr>Key = ''status.code'', Operator = ''is'',
          Value = Some \<lparr>StringValue = None, IntValue = Some ''2'', BoolValue = None\<rparr>\<rparr>]
      else [])
   \<and> ((\<forall>k. k \<noteq> ''min_duration_ms'' \<longrightarrow> map_of args' k = map_of args k)
        \<longrightarrow> spanFilters L args' = spanFilters L args)
   \<and> logFilters args =
       (case as_string (map_of args ''service_name'') of
          Some s \<Rightarrow>
            if s = '''' then []
            else [\<lparr>Key = ''service.name'', Operator = ''is'',
                   Value = Some \<lparr>StringValue = Some s, IntValue = None, BoolValue = None\<rparr>\<rparr>]
        | None \<Rightarrow> [])
   \<and> ((\<forall>k. k \<noteq> ''min_severity'' \<and> k \<noteq> ''body_contains''
            \<longrightarrow> map_of args' k = map_of args k)
        \<longrightarrow> logFilters args' = logFilters args)"
proof -
  have "spanFilters L args' = spanFilters L args"
    if "\<forall>k. k \<noteq> ''min_duration_ms'' \<longrightarrow> map_of args' k = map_of args k"
    using that by (simp add: spanFilters_eq)
  moreover have "logFilters args' = logFilters args"
    if "\<forall>k. k \<noteq> ''min_severity'' \<and> k \<noteq> ''body_contains''
          \<longrightarrow> map_of args' k = map_of args k"
    using that by (simp add: logFilters_eq)
  ultimately show ?thesis
    using spanFilters_eq [of L args] logFilters_eq [of args] by blast
qed

theorem filters_canonical_witness:
  "map Key (spanFilters exampleLib
      [(''min_duration_ms'', JNum 100), (''service_name'', JStr ''cart''),
       (''error_only'', JBool True)])
     = [''service.name'', ''status.code'']
   \<and> spanFilters exampleLib
        [(''min_duration_ms'', JNum 100), (''service_name'', JStr ''cart''),
         (''error_only'', JBool True)]
     = spanFilters exampleLib [(''service_name'', JStr ''cart''), (''error_only'', JBool True)]
   \<and> logFilters [(''min_severity'', JStr ''ERROR''), (''service_name'', JStr ''cart'')]
     = logFilters [(''service_name'', JStr ''cart'')]"
  using filters_canonical
          [where L = exampleLib
             and args = "[(''service_name'', JStr ''cart''), (''error_only'', JBool True)]"
             and args' = "[(''min_duration_ms'', JNum 100), (''service_name'', JStr ''cart''),
                           (''error_only'', JBool True)]"]
        filters_canonical
          [where L = exampleLib
             and args = "[(''service_name'', JStr ''cart'')]"
             and args' = "[(''min_severity'', JStr ''ERROR''), (''service_name'', JStr ''cart'')]"]
  by simp

text \<open>
  Claim C4, as the spec states it, fails: the operator the handlers write is \<open>is\<close>,
  not \<open>equals\<close>.
\<close>

theorem filters_operator_counterexample:
  "map Operator (spanFilters exampleLib [(''service_name'', JStr ''cart'')]) = [''is'']
   \<and> map Operator (logFilters [(''service_name'', JStr ''cart'')]) = [''is'']
   \<and> ''is'' \<noteq> ''equals''"
  by (simp add: spanFilters_eq logFilters_eq)

text \<open>
  Claim C4, amended: every filter emitted for a span or a log query has the operator
  \<open>is\<close>, a non-empty key, and a value with exactly one of \<open>StringValue\<close>,
  \<open>IntValue\<close>, \<open>BoolValue\<close> populated.
\<close>

theorem filters_wellformed:
  "\<forall>f \<in> set (spanFilters L args) \<union> set (logFilters args).
     Operator f = ''is'' \<and> Key f \<noteq> '''' \<and>
     (case Value f of
        None \<Rightarrow> False
      | Some v \<Rightarrow>
          length (filter (\<lambda>b. b)
            [StringValue v \<noteq> None, IntValue v \<noteq> None, BoolValue v \<noteq> None]) = 1)"
  unfolding spanFilters_eq logFilters_eq
  by (auto split: option.splits if_splits)

theorem filters_wellformed_witness:
  "spanFilters exampleLib [(''service_name'', JStr ''cart'')]
     = [\<lparr>Key = ''service.name'', Operator = ''is'',
         Value = Some \<lparr>StringValue = Some ''cart'', IntValue = None, BoolValue = None\<rparr>\<rparr>]
   \<and> Operator (hd (spanFilters exampleLib [(''service_name'', JStr ''cart'')])) = ''is''
   \<and> Key (hd (spanFilters exampleLib [(''service_name'', JStr ''cart'')])) \<noteq> ''''"
  using filters_wellformed [of exampleLib "[(''service_name'', JStr ''cart'')]"]
  by (simp add: spanFilters_eq logFilters_eq)

section \<open>Time window: results\<close>

text \<open>
  Both handlers compute the window as \<open>from = timeFrom now (timeRangeMinutes L args)\<close>
  and \<open>to = now\<close>, with the one \<open>now\<close> they are given; the computation has no error
  branch. Its duration is \<open>now - from\<close>, in nanoseconds.

  Claim C6, as the spec states it, fails for a fractional request: the conversion to
  \<open>int\<close> truncates, so half a minute gives an empty window.
\<close>

theorem timeWindow_fraction_counterexample:
  "0 - timeFrom 0 (timeRangeMinutes exampleLib [(''time_range_minutes'', JNum (1 / 2))]) = 0
   \<and> real_of_int
        (0 - timeFrom 0 (timeRangeMinutes exampleLib [(''time_range_minutes'', JNum (1 / 2))]))
      \<noteq> (1 / 2) * real_of_int Minute"
  by (simp add: timeRangeMinutes_def float_to_int_def trunc_zero_def in_int64_def
        timeFrom_def wrap64_def Minute_def)

text \<open>
  Claim C6, amended: the window is \<open>[now - lookback, now]\<close> for the one \<open>now\<close> of the
  invocation. Its duration is 60 minutes when \<open>time_range_minutes\<close> is absent, not a
  number, or at most 0; exactly 1440 minutes when it is above 1440 (and below \<open>2^63\<close>,
  where the conversion to \<open>int\<close> is defined); otherwise the requested number of minutes
  truncated to a whole number (so 0 for a request below one minute).
\<close>

theorem timeWindow_duration:
  "(as_float (map_of args ''time_range_minutes'') = None
      \<longrightarrow> now - timeFrom now (timeRangeMinutes L args) = 60 * Minute)
   \<and> (as_float (map_of args ''time_range_minutes'') = Some m \<and> m \<le> 0
      \<longrightarrow> now - timeFrom now (timeRangeMinutes L args) = 60 * Minute)
   \<and> (as_float (map_of args ''time_range_minutes'') = Some m \<and> 1440 < m \<and> m < 2 ^ 63
      \<longrightarrow> now - timeFrom now (timeRangeMinutes L args) = 1440 * Minute)
   \<and> (as_float (map_of args ''time_range_minutes'') = Some m \<and> 0 < m \<and> m \<le> 1440
      \<longrightarrow> now - timeFrom now (timeRangeMinutes L args) = \<lfloor>m\<rfloor> * Minute)"
proof -
  have dur: "now - timeFrom now k = k * Minute" if "0 \<le> k" "k \<le> 1440" for k
    using that by (simp add: timeFrom_def wrap64_def Minute_def)
  have big: "timeRangeMinutes L args = 1440"
    if "as_float (map_of args ''time_range_minutes'') = Some m" "1440 < m" "m < 2 ^ 63"
  proof -
    have "float_to_int L m = \<lfloor>m\<rfloor>" using that by (simp add: float_to_int_in_range)
    moreover have "1440 \<le> \<lfloor>m\<rfloor>" using that by (simp add: le_floor_iff)
    ultimately have "(if float_to_int L m > 1440 then 1440 else float_to_int L m) = 1440"
      by presburger
    then show ?thesis using that by (simp add: timeRangeMinutes_def Let_def)
  qed
  have small: "timeRangeMinutes L args = \<lfloor>m\<rfloor>"
    if "as_float (map_of args ''time_range_minutes'') = Some m" "0 < m" "m \<le> 1440"
  proof -
    have "float_to_int L m = \<lfloor>m\<rfloor>" using that by (simp add: float_to_int_in_range)
    moreover have "\<lfloor>m\<rfloor> \<le> 1440" using that by (simp add: floor_le_iff)
    ultimately have
      "(if float_to_int L m > 1440 then 1440 else float_to_int L m) = \<lfloor>m\<rfloor>"
      by presburger
    then show ?thesis using that by (simp add: timeRangeMinutes_def Let_def)
  qed
  have fl: "0 \<le> \<lfloor>m\<rfloor> \<and> \<lfloor>m\<rfloor> \<le> 1440" if "0 < m" "m \<le> 1440"
    using that by (simp add: floor_le_iff)
  show ?thesis
    using big small fl dur [of 60] dur [of 1440] dur [of "\<lfloor>m\<rfloor>"]
    by (auto simp: timeRangeMinutes_def Let_def)
qed

theorem timeWindow_duration_witness:
  "1000 - timeFrom 1000 (timeRangeMinutes exampleLib []) = 60 * Minute
   \<and> 1000 - timeFrom 1000
        (timeRangeMinutes exampleLib [(''time_range_minutes'', JNum 0)]) = 60 * Minute
   \<and> 1000 - timeFrom 1000
        (timeRangeMinutes exampleLib [(''time_range_minutes'', JNum 2000)]) = 1440 * Minute
   \<and> 1000 - timeFrom 1000
        (timeRangeMinutes exampleLib [(''time_range_minutes'', JNum 30)]) = 30 * Minute"
  using timeWindow_duration [where args = "[]" and now = 1000 and L = exampleLib]
    timeWindow_duration [where args = "[(''time_range_minutes'', JNum 0)]" and m = 0
      and now = 1000 and L = exampleLib]
    timeWindow_duration [where args = "[(''time_range_minutes'', JNum 2000)]" and m = 2000
      and now = 1000 and L = exampleLib]
    timeWindow_duration [where args = "[(''time_range_minutes'', JNum 30)]" and m = 30
      and now = 1000 and L = exampleLib]
  by simp

end
